theory Spec2Isabelle
  imports Complex_Main "HOL-Library.AList"
begin

section \<open>Python values shared by the modules\<close>

text \<open>
  Exceptions are values.  Only the classes the handlers of the source tell apart are kept:
  \<open>asyncio.TimeoutError\<close> has its own \<open>except\<close> clause, everything else is caught
  by \<open>except Exception\<close> and only its \<open>str(e)\<close> is read.
\<close>

datatype py_exception =
    PyException string
  | TimeoutError
  | ValueError string
  | AttributeError string
  | TypeError string
  | IndexError string
  | KeyError string
  | NameError string
  | HTTPException nat string

text \<open>\<open>str(e)\<close>: the message of the exception (a timeout raised by \<open>wait_for\<close> has none).\<close>

fun str_of :: "py_exception \<Rightarrow> string" where
  "str_of (PyException m) = m"
| "str_of TimeoutError = []"
| "str_of (ValueError m) = m"
| "str_of (AttributeError m) = m"
| "str_of (TypeError m) = m"
| "str_of (IndexError m) = m"
| "str_of (KeyError m) = m"
| "str_of (NameError m) = m"
| "str_of (HTTPException c m) = m"

subsection \<open>String helpers\<close>

definition digit_char :: "nat \<Rightarrow> char" where
  "digit_char d = char_of (48 + d)"

function show_nat :: "nat \<Rightarrow> string" where
  "show_nat n = (if n < 10 then [digit_char n] else show_nat (n div 10) @ [digit_char (n mod 10)])"
  by pat_completeness auto
termination
  by (relation "measure (\<lambda>n. n)") auto

declare show_nat.simps [simp del]

text \<open>The characters \<open>str.strip()\<close> removes, among the code points below 256.\<close>

definition is_py_space :: "char \<Rightarrow> bool" where
  "is_py_space c = (of_char c \<in> {9, 10, 11, 12, 13, 28, 29, 30, 31, 32, 133, 160 :: nat})"

definition strip :: "string \<Rightarrow> string" where
  "strip s = rev (dropWhile is_py_space (rev (dropWhile is_py_space s)))"

definition lower_char :: "char \<Rightarrow> char" where
  "lower_char c = (let n = (of_char c :: nat) in if 65 \<le> n \<and> n \<le> 90 then char_of (n + 32) else c)"

definition lower :: "string \<Rightarrow> string" where
  "lower s = map lower_char s"

fun starts_with :: "string \<Rightarrow> string \<Rightarrow> bool" where
  "starts_with [] s = True"
| "starts_with (p # ps) [] = False"
| "starts_with (p # ps) (c # cs) = (p = c \<and> starts_with ps cs)"

text \<open>\<open>sub in s\<close> on strings.\<close>

fun contains :: "string \<Rightarrow> string \<Rightarrow> bool" where
  "contains sub [] = starts_with sub []"
| "contains sub (c # cs) = (starts_with sub (c # cs) \<or> contains sub cs)"

section \<open>multi\_llm\_client.py: the backend calls\<close>

text \<open>
  The three hosted or local services are outside the program.  What one request to a
  service does is an input of the model: it times out at the \<open>wait_for\<close> ceiling, the
  transport raises, or a response object comes back.
\<close>

text \<open>
  A chat message of an LM Studio response: \<open>message.content\<close> (may be \<open>None\<close>) and
  \<open>getattr(message, 'reasoning', '')\<close>, where \<open>None\<close> stands for an attribute that is
  present and null, on which \<open>len(reasoning)\<close> raises.
\<close>

record lm_message =
  content :: "string option"
  reasoning :: "string option"

datatype lm_raw =
    LmTimeout
  | LmRaises string
  | LmResponse "lm_message list"

datatype claude_raw =
    ClTimeout
  | ClRaises string
  | ClResponse "string list"

datatype gemini_raw =
    GmRaises string
  | GmText string

text \<open>
  The body of one pass of the \<open>for attempt in range(max_retries)\<close> loop of
  \<open>_query_lmstudio\<close>, up to its \<open>return content\<close> or the exception that reaches the
  handlers of the loop.
\<close>

definition lmstudio_attempt :: "lm_raw \<Rightarrow> py_exception + string" where
  "lmstudio_attempt raw =
     (case raw of
        LmTimeout \<Rightarrow> Inl TimeoutError
      | LmRaises m \<Rightarrow> Inl (PyException m)
      | LmResponse choices \<Rightarrow>
          (case choices of
             [] \<Rightarrow> Inl (PyException ''LMStudio returned empty response'')
           | message # _ \<Rightarrow>
               (let c = (case content message of None \<Rightarrow> [] | Some t \<Rightarrow> t) in
                case reasoning message of
                  None \<Rightarrow> Inl (TypeError ''object of type 'NoneType' has no len()'')
                | Some r \<Rightarrow>
                    if c = [] \<or> strip c = [] then
                      (if r \<noteq> [] \<and> strip r \<noteq> [] then Inr r
                       else Inl (PyException ''LMStudio returned empty content and reasoning''))
                    else Inr c)))"

text \<open>
  The retry loop.  The result is paired with the number of requests sent to the service.
  The k-th request's outcome is \<open>raws k\<close>.  A loop that ends without returning gives
  Python's \<open>None\<close>.
\<close>

function lmstudio_loop ::
  "nat \<Rightarrow> nat \<Rightarrow> (nat \<Rightarrow> lm_raw) \<Rightarrow> nat \<times> (py_exception + string option)" where
  "lmstudio_loop max_retries attempt raws =
     (if attempt < max_retries then
        (case lmstudio_attempt (raws attempt) of
           Inr c \<Rightarrow> (attempt + 1, Inr (Some c))
         | Inl TimeoutError \<Rightarrow>
             if int attempt < int max_retries - 1 then lmstudio_loop max_retries (attempt + 1) raws
             else (attempt + 1, Inl (PyException (''LMStudio timeout after '' @ show_nat max_retries
                     @ '' attempt(s) (45s each - check if model is loaded)'')))
         | Inl e \<Rightarrow>
             if int attempt < int max_retries - 1 then lmstudio_loop max_retries (attempt + 1) raws
             else (attempt + 1, Inl (PyException (''LMStudio failed after '' @ show_nat max_retries
                     @ '' attempts: '' @ str_of e))))
      else (attempt, Inr None))"
  by pat_completeness auto
termination
  by (relation "measure (\<lambda>(m, a, r). m - a)") auto

declare lmstudio_loop.simps [simp del]

definition max_retries :: nat where
  "max_retries = 1"

definition query_lmstudio :: "(nat \<Rightarrow> lm_raw) \<Rightarrow> nat \<times> (py_exception + string option)" where
  "query_lmstudio raws = lmstudio_loop max_retries 0 raws"

text \<open>\<open>_query_claude\<close>: one request under a 30 second ceiling, no loop.\<close>

definition query_claude :: "claude_raw \<Rightarrow> nat \<times> (py_exception + string option)" where
  "query_claude raw =
     (1, case raw of
           ClTimeout \<Rightarrow> Inl (PyException ''Claude timeout after 30 seconds'')
         | ClRaises m \<Rightarrow> Inl (PyException (''Claude failed: '' @ m))
         | ClResponse blocks \<Rightarrow>
             (case blocks of
                [] \<Rightarrow> Inl (PyException (''Claude failed: '' @ ''list index out of range''))
              | t # _ \<Rightarrow> Inr (Some t)))"

text \<open>\<open>_query_gemini\<close>: one request, the timeout is the client's own and arrives as an exception.\<close>

definition query_gemini :: "gemini_raw \<Rightarrow> nat \<times> (py_exception + string option)" where
  "query_gemini raw =
     (1, case raw of
           GmRaises error_msg \<Rightarrow>
             if contains ''timeout'' (lower error_msg) \<or> contains ''deadline'' (lower error_msg)
             then Inl (PyException ''Gemini timeout after 60 seconds'')
             else Inl (PyException (''Gemini failed: '' @ error_msg))
         | GmText t \<Rightarrow> Inr (Some t))"


subsection \<open>Active models and the parallel dispatch\<close>

text \<open>
  \<open>enabled_models\<close> comes from the configuration, \<open>runtime_enabled_models\<close> is the
  set of runtime toggles (a name, or \<open>disabled_\<close> followed by a name).  Python sets are
  modelled as lists without an order of their own.
\<close>

record client =
  enabled_models :: "string list"
  runtime_enabled_models :: "string list"

definition get_active_models :: "client \<Rightarrow> string list" where
  "get_active_models c =
     remdups
       (filter (\<lambda>model_name. (''disabled_'' @ model_name) \<notin> set (runtime_enabled_models c))
          (enabled_models c)
        @ filter (\<lambda>item. \<not> starts_with ''disabled_'' item) (runtime_enabled_models c))"

text \<open>What each service does during one dispatch.\<close>

record backends =
  lm_backend :: "nat \<Rightarrow> lm_raw"
  claude_backend :: claude_raw
  gemini_backend :: gemini_raw

text \<open>
  The per-backend entry of the bundle.  The measured \<open>response_time\<close> is wall-clock time
  and is left out.
\<close>

record model_result =
  analysis :: "string option"
  status :: string

text \<open>
  \<open>query_model\<close>, the coroutine \<open>gather\<close> runs for each active model:
  \<open>query_dispatch\<close> is the \<open>if\<close>/\<open>elif\<close> chain inside its \<open>try\<close>.  The value of
  \<open>query_model\<close> is what \<open>gather(..., return_exceptions=True)\<close> puts in the list: an
  exception object or the pair it returned.
\<close>

definition query_dispatch :: "backends \<Rightarrow> string \<Rightarrow> py_exception + string option" where
  "query_dispatch env model_name =
     (if model_name = ''lmstudio'' then snd (query_lmstudio (lm_backend env))
      else if model_name = ''anthropic'' then snd (query_claude (claude_backend env))
      else if model_name = ''gemini'' then snd (query_gemini (gemini_backend env))
      else Inr (Some (''Unknown model: '' @ model_name)))"

definition query_model :: "backends \<Rightarrow> string \<Rightarrow> py_exception + (string \<times> model_result)" where
  "query_model env model_name =
     (case query_dispatch env model_name of
        Inr response \<Rightarrow> Inr (model_name, \<lparr>analysis = response, status = ''success''\<rparr>)
      | Inl e \<Rightarrow> Inr (model_name, \<lparr>analysis = Some (''Error: '' @ str_of e), status = ''error''\<rparr>))"

text \<open>
  The loop over \<open>model_results\<close>: an exception object is skipped, a pair is stored with
  \<open>results[model_name] = model_result\<close>.  The dict is an association list.
\<close>

fun collect_results ::
  "(py_exception + (string \<times> model_result)) list \<Rightarrow> (string \<times> model_result) list
   \<Rightarrow> (string \<times> model_result) list" where
  "collect_results [] results = results"
| "collect_results (Inl e # rest) results = collect_results rest results"
| "collect_results (Inr (model_name, model_result) # rest) results =
     collect_results rest (AList.update model_name model_result results)"

record analysis_bundle =
  bundle_error :: "string option"
  bundle_results :: "(string \<times> model_result) list"
  models_queried :: "string list option"

definition get_analysis_from_all_models :: "client \<Rightarrow> backends \<Rightarrow> py_exception + analysis_bundle" where
  "get_analysis_from_all_models c env =
     (let active_models = get_active_models c in
      if active_models = [] then
        Inr \<lparr>bundle_error = Some ''No models enabled'', bundle_results = [],
             models_queried = None\<rparr>
      else
        (let model_results = map (query_model env) active_models in
         Inr \<lparr>bundle_error = None, bundle_results = collect_results model_results [],
              models_queried = Some active_models\<rparr>))"

section \<open>independent\_llm\_manager.py: the per-backend manager\<close>

text \<open>\<open>is_displaying\<close> holds \<open>False\<close>, \<open>True\<close> or the string \<open>"frozen"\<close>.\<close>

datatype displaying = NotDisplaying | Displaying | Frozen

record analysis_result =
  result_model_name :: string
  response :: "string option"
  result_status :: string

text \<open>\<open>display_timers\<close> counts the \<open>_display_timer\<close> tasks created and not yet fired.\<close>

record manager =
  model_name :: string
  display_duration :: rat
  is_analyzing :: bool
  is_displaying :: displaying
  last_analysis_time :: rat
  current_result :: "analysis_result option"
  result_timestamp :: "rat option"
  display_timers :: nat

definition can_accept_request :: "manager \<Rightarrow> bool" where
  "can_accept_request m = (\<not> (is_analyzing m \<or> is_displaying m \<noteq> NotDisplaying))"

text \<open>\<open>_get_retry_time\<close>; a timestamp of \<open>None\<close> or \<open>0\<close> is falsy.\<close>

definition get_retry_time :: "rat \<Rightarrow> manager \<Rightarrow> rat" where
  "get_retry_time clock m =
     (if is_analyzing m then 0
      else if is_displaying m \<noteq> NotDisplaying \<and> result_timestamp m \<noteq> None \<and> result_timestamp m \<noteq> Some 0
      then (case result_timestamp m of
              Some ts \<Rightarrow> max 0 (display_duration m - (clock - ts))
            | None \<Rightarrow> 0)
      else 0)"

text \<open>
  The \<open>if\<close>/\<open>elif\<close> chain of \<open>analyze_fault\<close> that picks the client method.  The
  client has no method \<open>_query_mistral\<close>, so that branch raises when it is reached.
\<close>

definition call_model :: "backends \<Rightarrow> string \<Rightarrow> py_exception + string option" where
  "call_model env name =
     (if name = ''mistral'' then
        Inl (AttributeError (CHR 0x27 # ''MultiLLMClient' object has no attribute '_query_mistral'' @ [CHR 0x27]))
      else if name = ''gemini'' then snd (query_gemini (gemini_backend env))
      else if name = ''lmstudio'' then snd (query_lmstudio (lm_backend env))
      else if name = ''anthropic'' then snd (query_claude (claude_backend env))
      else Inl (ValueError (''Unknown model: '' @ name)))"

datatype analyze_response = Busy rat | Finished analysis_result

text \<open>
  \<open>analyze_fault\<close>.  \<open>clock\<close> is the reading of \<open>time.time()\<close> when the call returns.
  Writing the Markdown log cannot raise (\<open>_save_to_md\<close> catches everything).
\<close>

definition analyze_fault :: "rat \<Rightarrow> backends \<Rightarrow> manager \<Rightarrow> analyze_response \<times> manager" where
  "analyze_fault clock env m =
     (if \<not> can_accept_request m then (Busy (get_retry_time clock m), m)
      else
        (let m1 = m\<lparr>is_analyzing := True\<rparr> in
         case call_model env (model_name m1) of
           Inr resp \<Rightarrow>
             (let result = \<lparr>result_model_name = model_name m1, response = resp,
                            result_status = ''success''\<rparr>
              in (Finished result,
                  m1\<lparr>current_result := Some result, result_timestamp := Some clock,
                     is_analyzing := False, is_displaying := Displaying,
                     display_timers := display_timers m1 + 1\<rparr>))
         | Inl e \<Rightarrow>
             (let m2 = m1\<lparr>is_analyzing := False\<rparr>;
                  error_result = \<lparr>result_model_name = model_name m2,
                                  response = Some (''Error: '' @ str_of e),
                                  result_status = ''error''\<rparr>
              in (Finished error_result, m2))))"

text \<open>\<open>_display_timer\<close> after its sleep of \<open>display_duration\<close> seconds.\<close>

definition display_timer :: "rat \<Rightarrow> manager \<Rightarrow> manager" where
  "display_timer clock m =
     m\<lparr>is_displaying := NotDisplaying, last_analysis_time := clock,
       display_timers := display_timers m - 1\<rparr>"

definition freeze_display :: "manager \<Rightarrow> manager" where
  "freeze_display m = (if is_displaying m \<noteq> NotDisplaying then m\<lparr>is_displaying := Frozen\<rparr> else m)"

definition unfreeze_display :: "rat \<Rightarrow> manager \<Rightarrow> manager" where
  "unfreeze_display clock m =
     (if is_displaying m = Frozen then m\<lparr>is_displaying := NotDisplaying, last_analysis_time := clock\<rparr>
      else m)"

text \<open>The lifecycle state of the specification, read off the two flags.\<close>

datatype lifecycle = Idle | Analyzing | DisplayingResult | FrozenResult

definition lifecycle_of :: "manager \<Rightarrow> lifecycle" where
  "lifecycle_of m =
     (if is_analyzing m then Analyzing
      else case is_displaying m of
             NotDisplaying \<Rightarrow> Idle
           | Displaying \<Rightarrow> DisplayingResult
           | Frozen \<Rightarrow> FrozenResult)"

section \<open>app.py: live ingestion, gating and runtime configuration\<close>

subsection \<open>Containers\<close>

text \<open>
  A sensor row is a dict from feature name to float.  Floats are modelled as rationals, so
  sums and means are exact.  A dict is an association list whose keys are distinct.
\<close>

type_synonym row = "(string \<times> rat) list"

text \<open>\<open>collections.deque\<close> with a \<open>maxlen\<close>: appending to a full deque drops from the left.\<close>

record 'a deque =
  items :: "'a list"
  maxlen :: nat

definition lastn :: "nat \<Rightarrow> 'a list \<Rightarrow> 'a list" where
  "lastn n xs = drop (length xs - n) xs"

definition deque_append :: "'a deque \<Rightarrow> 'a \<Rightarrow> 'a deque" where
  "deque_append d x = d\<lparr>items := lastn (maxlen d) (items d @ [x])\<rparr>"

definition deque_clear :: "'a deque \<Rightarrow> 'a deque" where
  "deque_clear d = d\<lparr>items := []\<rparr>"

text \<open>\<open>deque(iterable, maxlen=n)\<close>: a negative \<open>maxlen\<close> raises, otherwise the last \<open>n\<close> items are kept.\<close>

definition deque_new :: "'a list \<Rightarrow> int \<Rightarrow> py_exception + 'a deque" where
  "deque_new xs n =
     (if n < 0 then Inl (ValueError ''maxlen must be non-negative'')
      else Inr \<lparr>items = lastn (nat n) xs, maxlen = nat n\<rparr>)"

text \<open>The slice \<open>xs[i:]\<close>, where a negative \<open>i\<close> counts from the end.\<close>

definition slice_from :: "int \<Rightarrow> 'a list \<Rightarrow> 'a list" where
  "slice_from i xs = (if i < 0 then drop (length xs - nat (- i)) xs else drop (nat i) xs)"

text \<open>\<open>int(w / 2)\<close>: true division, then truncation towards zero.\<close>

definition int_half :: "int \<Rightarrow> int" where
  "int_half w = (if 0 \<le> w then w div 2 else - ((- w) div 2))"

subsection \<open>State\<close>

text \<open>
  An aggregated row as stored in \<open>live_buffer\<close>: the feature means together with the
  keys \<open>t2_stat\<close>, \<open>anomaly\<close>, \<open>time\<close> and \<open>threshold\<close>.
\<close>

record agg_row =
  features :: row
  t2_stat :: rat
  anomaly :: bool
  time :: int
  threshold :: rat

text \<open>
  What the handler reads and never writes: \<open>FEATURE_COLUMNS\<close>, the detector
  (\<open>pca_model.process_data_point\<close> and \<open>pca_model.t2_threshold\<close>, code outside this
  repository's sources, taken as given) and \<open>config["topkfeatures"]\<close>, which
  \<open>load_config\<close> checks to be between 1 and 20.
\<close>

record static =
  FEATURE_COLUMNS :: "string list"
  process_data_point :: "row \<Rightarrow> rat \<times> bool"
  t2_threshold :: rat
  topkfeatures :: nat

text \<open>
  The module-level variables of \<open>app.py\<close> and the fields of \<open>anomaly_state_tracker\<close>
  the handlers use.  \<open>background_tasks\<close> lists the tasks handed to
  \<open>asyncio.create_task\<close>, each with the \<open>top_features\<close> it captured.
\<close>

record formatted_results =
  feature_analysis :: string
  llm_analyses :: "(string \<times> model_result) list"

record app_state =
  recent_raw_rows :: "row deque"
  aggregated_count :: int
  live_buffer :: "agg_row deque"
  consecutive_anomalies :: int
  LIVE_WINDOW_SIZE :: int
  consecutive_anomalies_required :: int
  decimation_N :: int
  llm_min_interval_seconds :: int
  feature_shift_jaccard_threshold :: rat
  feature_shift_min_interval_seconds :: int
  last_llm_trigger_time :: rat
  last_llm_top_features :: "string list"
  tracker_is_analyzing :: bool
  tracker_last_llm_request_time :: rat
  tracker_min_llm_interval :: rat
  last_analysis_result :: "formatted_results option"
  background_tasks :: "string list list"

subsection \<open>AnomalyStateTracker.can\_send\_llm\_request\<close>

text \<open>
  \<open>clock\<close> is the reading of \<open>time.time()\<close>.  The reason string is replaced by the
  number it prints: the remaining wait, or the time since the last request.
\<close>

definition can_send_llm_request :: "rat \<Rightarrow> app_state \<Rightarrow> bool \<times> rat" where
  "can_send_llm_request clock s =
     (let time_since_last_llm = clock - tracker_last_llm_request_time s in
      if time_since_last_llm < tracker_min_llm_interval s
      then (False, tracker_min_llm_interval s - time_since_last_llm)
      else (True, time_since_last_llm))"

subsection \<open>Aggregation\<close>

text \<open>\<open>{k: float(v) for k, v in req.data_point.items() if k in FEATURE_COLUMNS}\<close>\<close>

definition raw_row :: "string list \<Rightarrow> row \<Rightarrow> row" where
  "raw_row fc data_point = filter (\<lambda>(k, v). k \<in> set fc) data_point"

text \<open>\<open>[r[c] for c in FEATURE_COLUMNS]\<close>; a missing key raises.\<close>

fun row_values :: "string list \<Rightarrow> row \<Rightarrow> py_exception + rat list" where
  "row_values [] r = Inr []"
| "row_values (c # cs) r =
     (case map_of r c of
        None \<Rightarrow> Inl (KeyError c)
      | Some v \<Rightarrow> (case row_values cs r of Inl e \<Rightarrow> Inl e | Inr vs \<Rightarrow> Inr (v # vs)))"

fun build_array :: "string list \<Rightarrow> row list \<Rightarrow> py_exception + rat list list" where
  "build_array fc [] = Inr []"
| "build_array fc (r # rs) =
     (case row_values fc r of
        Inl e \<Rightarrow> Inl e
      | Inr vs \<Rightarrow> (case build_array fc rs of Inl e \<Rightarrow> Inl e | Inr arr \<Rightarrow> Inr (vs # arr)))"

text \<open>\<open>arr.mean(axis=0)\<close> of an array with one column per feature.\<close>

definition mean_vec :: "nat \<Rightarrow> rat list list \<Rightarrow> rat list" where
  "mean_vec ncols arr =
     map (\<lambda>j. sum_list (map (\<lambda>vs. vs ! j) arr) / of_nat (length arr)) [0..<ncols]"

definition mean_row :: "string list \<Rightarrow> row list \<Rightarrow> py_exception + row" where
  "mean_row fc rows =
     (case build_array fc rows of
        Inl e \<Rightarrow> Inl e
      | Inr arr \<Rightarrow> Inr (zip fc (mean_vec (length fc) arr)))"

subsection \<open>Top contributing features\<close>

text \<open>
  \<open>sort_values(ascending=False)\<close> as a stable insertion sort on the value; pandas does
  not fix the order of equal values.
\<close>

fun insert_desc :: "string \<times> rat \<Rightarrow> (string \<times> rat) list \<Rightarrow> (string \<times> rat) list" where
  "insert_desc x [] = [x]"
| "insert_desc x (y # ys) = (if snd y < snd x then x # y # ys else y # insert_desc x ys)"

definition sort_desc :: "(string \<times> rat) list \<Rightarrow> (string \<times> rat) list" where
  "sort_desc xs = foldr insert_desc xs []"

text \<open>
  \<open>deltas = (buf_df.iloc[-1][FEATURE_COLUMNS] - buf_df[FEATURE_COLUMNS].mean()).abs()\<close>,
  sorted, and the first \<open>topk\<close> names.  An empty buffer makes \<open>iloc[-1]\<close> raise.
\<close>

definition top_features :: "string list \<Rightarrow> nat \<Rightarrow> agg_row list \<Rightarrow> py_exception + string list" where
  "top_features fc topk buf =
     (if buf = [] then Inl (IndexError ''single positional indexer is out-of-bounds'')
      else
        (case build_array fc (map features buf) of
           Inl e \<Rightarrow> Inl e
         | Inr arr \<Rightarrow>
             (let means = mean_vec (length fc) arr;
                  deltas = map (\<lambda>j. \<bar>last arr ! j - means ! j\<bar>) [0..<length fc]
              in Inr (take topk (map fst (sort_desc (zip fc deltas)))))))"

subsection \<open>The ingest handler\<close>

datatype llm_status = NotTriggered | AnalyzingInProgress | RateLimited rat | Triggered "string list"

record scored =
  ack_t2_stat :: rat
  ack_anomaly :: bool
  ack_threshold :: rat
  ack_consecutive_anomalies :: int
  ack_aggregated_index :: int
  ack_llm :: llm_status

datatype ack =
    Ignored "string list"
  | Aggregating nat int
  | Scored scored

text \<open>
  What one call of the handler does: the response (an acknowledgment, or the exception the
  outer \<open>except\<close> turns into an HTTP 500), the row given to \<open>live_buffer.append\<close> if
  one was produced, and the state it leaves.
\<close>

record ingest_outcome =
  reply :: "py_exception + ack"
  appended :: "agg_row option"
  after :: app_state

text \<open>
  Lines from the detector call to \<open>return result\<close>.  On the trigger branch the task is
  created, \<open>_consecutive_anomalies\<close> is reset, and the next statement reads the name
  \<open>now\<close>, which is bound nowhere in the module: the handler leaves through its
  \<open>except\<close> clause.
\<close>

definition score_and_gate :: "static \<Rightarrow> rat \<Rightarrow> row \<Rightarrow> app_state \<Rightarrow> ingest_outcome" where
  "score_and_gate st clock r s2 =
     (let t2 = fst (process_data_point st r);
          is_anom = snd (process_data_point st r);
          row_with_stats = \<lparr>features = r, t2_stat = t2, anomaly = is_anom,
                            time = aggregated_count s2, threshold = t2_threshold st\<rparr>;
          s3 = s2\<lparr>live_buffer := deque_append (live_buffer s2) row_with_stats\<rparr>;
          s4 = s3\<lparr>consecutive_anomalies := (if is_anom then consecutive_anomalies s3 + 1 else 0)\<rparr>;
          result = (\<lambda>llm. \<lparr>ack_t2_stat = t2, ack_anomaly = is_anom, ack_threshold = t2_threshold st,
                             ack_consecutive_anomalies = consecutive_anomalies s4,
                             ack_aggregated_index = aggregated_count s4, ack_llm = llm\<rparr>);
          enough_context =
            (max 5 (int_half (LIVE_WINDOW_SIZE s4)) \<le> int (length (items (live_buffer s4))))
      in
        if is_anom \<and> max 1 (consecutive_anomalies_required s4) \<le> consecutive_anomalies s4
           \<and> enough_context then
          (if tracker_is_analyzing s4 then
             \<lparr>reply = Inr (Scored (result AnalyzingInProgress)), appended = Some row_with_stats,
              after = s4\<rparr>
           else if \<not> fst (can_send_llm_request clock s4) then
             \<lparr>reply = Inr (Scored (result (RateLimited (snd (can_send_llm_request clock s4))))),
              appended = Some row_with_stats, after = s4\<rparr>
           else
             (case top_features (FEATURE_COLUMNS st) (topkfeatures st) (items (live_buffer s4)) of
                Inl e \<Rightarrow>
                  \<lparr>reply = Inl (HTTPException 500 (str_of e)), appended = Some row_with_stats,
                   after = s4\<rparr>
              | Inr top_feats \<Rightarrow>
                  (let s5 = s4\<lparr>background_tasks := background_tasks s4 @ [top_feats]\<rparr>;
                       s6 = s5\<lparr>consecutive_anomalies := 0\<rparr>
                   in \<lparr>reply = Inl (HTTPException 500 (str_of (NameError ''name 'now' is not defined''))),
                       appended = Some row_with_stats, after = s6\<rparr>)))
        else
          \<lparr>reply = Inr (Scored (result NotTriggered)), appended = Some row_with_stats, after = s4\<rparr>)"

text \<open>\<open>ingest_live_point\<close>: the feature check, the accumulator, the mean, then the block above.\<close>

definition ingest_live_point :: "static \<Rightarrow> rat \<Rightarrow> row \<Rightarrow> app_state \<Rightarrow> ingest_outcome" where
  "ingest_live_point st clock data_point s =
     (let raw = raw_row (FEATURE_COLUMNS st) data_point in
      if length raw \<noteq> length (FEATURE_COLUMNS st) then
        \<lparr>reply = Inr (Ignored (map fst raw)), appended = None, after = s\<rparr>
      else
        (let s1 = s\<lparr>recent_raw_rows := deque_append (recent_raw_rows s) raw\<rparr> in
         if int (length (items (recent_raw_rows s1))) < max 1 (decimation_N s1) then
           \<lparr>reply = Inr (Aggregating (length (items (recent_raw_rows s1))) (decimation_N s1)),
            appended = None, after = s1\<rparr>
         else
           (case mean_row (FEATURE_COLUMNS st) (items (recent_raw_rows s1)) of
              Inl e \<Rightarrow> \<lparr>reply = Inl (HTTPException 500 (str_of e)), appended = None, after = s1\<rparr>
            | Inr r \<Rightarrow>
                score_and_gate st clock r
                  (s1\<lparr>recent_raw_rows := deque_clear (recent_raw_rows s1),
                      aggregated_count := aggregated_count s1 + 1\<rparr>))))"


subsection \<open>The background analysis task\<close>

text \<open>
  What happens while the task runs: whether the 180 second ceiling of \<open>wait_for\<close> is
  hit, and the client with what its backends do.
\<close>

record analysis_env =
  overall_timeout :: bool
  env_client :: client
  env_backends :: backends

text \<open>
  \<open>format_comparative_results\<close> (response times left out).  The word count calls
  \<open>split\<close> on each analysis, which raises on \<open>None\<close>.
\<close>

definition format_comparative_results ::
  "(string \<times> model_result) list \<Rightarrow> string \<Rightarrow> py_exception + formatted_results" where
  "format_comparative_results res feature_comparison =
     (if list_ex (\<lambda>(model_name, result). analysis result = None) res
      then Inl (AttributeError (CHR 0x27 # ''NoneType' object has no attribute 'split'' @ [CHR 0x27]))
      else Inr \<lparr>feature_analysis = feature_comparison, llm_analyses = res\<rparr>)"

text \<open>The first statements of the task, up to the \<open>await\<close>.\<close>

definition background_start :: "rat \<Rightarrow> app_state \<Rightarrow> app_state" where
  "background_start clock s = s\<lparr>tracker_is_analyzing := True, tracker_last_llm_request_time := clock\<rparr>"

text \<open>
  The rest of the \<open>try\<close> block, from the moment the \<open>await\<close> returns or raises: the
  inner handler turns the overall timeout into empty results, the results are formatted
  and stored (saving them to Markdown is wrapped in its own handler and cannot raise), and
  building \<open>snap\<close> reads the unbound name \<open>now\<close>.  \<open>comparison\<close> is the text the
  task captured when it was created.
\<close>

definition background_try :: "analysis_env \<Rightarrow> string \<Rightarrow> app_state \<Rightarrow> (py_exception + unit) \<times> app_state" where
  "background_try aenv comparison s =
     (case (if overall_timeout aenv then Inr []
            else (case get_analysis_from_all_models (env_client aenv) (env_backends aenv) of
                    Inl e \<Rightarrow> Inl e
                  | Inr b \<Rightarrow> Inr (bundle_results b))) of
        Inl e \<Rightarrow> (Inl e, s)
      | Inr llm_results \<Rightarrow>
          (case format_comparative_results llm_results comparison of
             Inl e \<Rightarrow> (Inl e, s)
           | Inr formatted \<Rightarrow>
               (Inl (NameError ''name 'now' is not defined''),
                s\<lparr>last_analysis_result := Some formatted\<rparr>)))"

text \<open>
  The \<open>finally\<close> clause, reached after the \<open>try\<close> block and after either handler (the
  handlers only log).
\<close>

definition background_finally :: "app_state \<Rightarrow> app_state" where
  "background_finally s = (if tracker_is_analyzing s then s\<lparr>tracker_is_analyzing := False\<rparr> else s)"

definition background_finish :: "analysis_env \<Rightarrow> string \<Rightarrow> app_state \<Rightarrow> app_state" where
  "background_finish aenv comparison s = background_finally (snd (background_try aenv comparison s))"

definition background_llm_analysis :: "rat \<Rightarrow> analysis_env \<Rightarrow> string \<Rightarrow> app_state \<Rightarrow> app_state" where
  "background_llm_analysis clock aenv comparison s =
     background_finish aenv comparison (background_start clock s)"

subsection \<open>update\_runtime\_config\<close>

text \<open>The keys of the payload the handler looks at, already converted by \<open>int\<close> or \<open>float\<close>.\<close>

record payload =
  pca_window_size :: "int option"
  fault_trigger_consecutive_step :: "int option"
  new_decimation_N :: "int option"
  new_llm_min_interval_seconds :: "int option"
  new_feature_shift_jaccard_threshold :: "rat option"
  new_feature_shift_min_interval_seconds :: "int option"

text \<open>
  The first block: the global is assigned, then the deque is rebuilt.  The handler has no
  \<open>try\<close> around the constructor, so its exception ends the request after the
  assignment.  Each block gives the exception, if any, and the state at that point.
\<close>

definition update_window :: "int \<Rightarrow> app_state \<Rightarrow> py_exception option \<times> app_state" where
  "update_window w s =
     (let s1 = s\<lparr>LIVE_WINDOW_SIZE := w\<rparr>;
          prev = items (live_buffer s1)
      in case deque_new (slice_from (- LIVE_WINDOW_SIZE s1) prev) (LIVE_WINDOW_SIZE s1) of
           Inl e \<Rightarrow> (Some e, s1)
         | Inr d \<Rightarrow> (None, s1\<lparr>live_buffer := d\<rparr>))"

definition update_decimation :: "int \<Rightarrow> app_state \<Rightarrow> py_exception option \<times> app_state" where
  "update_decimation n s =
     (let s1 = s\<lparr>decimation_N := max 1 n\<rparr>;
          prev_raw = items (recent_raw_rows s1)
      in case deque_new
                (slice_from (if 1 < decimation_N s1 then - decimation_N s1 + 1 else 0) prev_raw)
                (decimation_N s1) of
           Inl e \<Rightarrow> (Some e, s1)
         | Inr d \<Rightarrow> (None, s1\<lparr>recent_raw_rows := d\<rparr>))"

definition update_rest :: "payload \<Rightarrow> app_state \<Rightarrow> app_state" where
  "update_rest p s =
     (let s1 = (case new_llm_min_interval_seconds p of
                  None \<Rightarrow> s
                | Some v \<Rightarrow> s\<lparr>llm_min_interval_seconds := max 0 v,
                               tracker_min_llm_interval := of_int (max 0 v)\<rparr>);
          s2 = (case new_feature_shift_jaccard_threshold p of
                  None \<Rightarrow> s1
                | Some v \<Rightarrow> s1\<lparr>feature_shift_jaccard_threshold := v\<rparr>)
      in (case new_feature_shift_min_interval_seconds p of
            None \<Rightarrow> s2
          | Some v \<Rightarrow> s2\<lparr>feature_shift_min_interval_seconds := v\<rparr>))"

text \<open>\<open>update_runtime_config\<close>: an exception leaves the handler at once.\<close>

definition update_runtime_config :: "payload \<Rightarrow> app_state \<Rightarrow> (py_exception + unit) \<times> app_state" where
  "update_runtime_config p s =
     (let r1 = (case pca_window_size p of None \<Rightarrow> (None, s) | Some w \<Rightarrow> update_window w s) in
      case fst r1 of
        Some e \<Rightarrow> (Inl e, snd r1)
      | None \<Rightarrow>
          (let s2 = (case fault_trigger_consecutive_step p of
                       None \<Rightarrow> snd r1
                     | Some k \<Rightarrow> (snd r1)\<lparr>consecutive_anomalies_required := k\<rparr>);
               r3 = (case new_decimation_N p of None \<Rightarrow> (None, s2) | Some n \<Rightarrow> update_decimation n s2)
           in case fst r3 of
                Some e \<Rightarrow> (Inl e, snd r3)
              | None \<Rightarrow> (Inr (), update_rest p (snd r3))))"

section \<open>app.py: the event stream\<close>



section \<open>Notions of the specification\<close>

text \<open>Jaccard similarity of two feature sets, as the specification's fingerprint test uses it.\<close>

definition jaccard :: "string list \<Rightarrow> string list \<Rightarrow> rat" where
  "jaccard xs ys =
     (if xs = [] \<and> ys = [] then 1
      else of_nat (length (filter (\<lambda>x. x \<in> set ys) (remdups xs)))
           / of_nat (length (remdups (xs @ ys))))"



text \<open>The value of feature \<open>c\<close> in a row that has it.\<close>

definition value_of :: "row \<Rightarrow> string \<Rightarrow> rat" where
  "value_of r c = (case map_of r c of Some v \<Rightarrow> v | None \<Rightarrow> 0)"


text \<open>A request body is feature-complete when it is a dict that has every feature.\<close>

definition feature_complete :: "string list \<Rightarrow> row \<Rightarrow> bool" where
  "feature_complete fc data_point = (distinct (map fst data_point) \<and> set fc \<subseteq> set (map fst data_point))"


section \<open>Example inputs\<close>

definition example_client :: client where
  "example_client =
     \<lparr>enabled_models = [''lmstudio'', ''anthropic'', ''gemini''], runtime_enabled_models = []\<rparr>"

text \<open>LM Studio times out, Claude answers, Gemini's transport fails.\<close>

definition failing_backends :: backends where
  "failing_backends =
     \<lparr>lm_backend = (\<lambda>k. LmTimeout), claude_backend = ClResponse [''ok''],
      gemini_backend = GmRaises ''connection reset''\<rparr>"

text \<open>LM Studio answers.\<close>

definition answering_backends :: backends where
  "answering_backends =
     \<lparr>lm_backend = (\<lambda>k. LmResponse [\<lparr>content = Some ''valve stuck'', reasoning = Some []\<rparr>]),
      claude_backend = ClTimeout, gemini_backend = GmText []\<rparr>"

definition idle_manager :: manager where
  "idle_manager =
     \<lparr>model_name = ''lmstudio'', display_duration = 10, is_analyzing = False,
      is_displaying = NotDisplaying, last_analysis_time = 0, current_result = None,
      result_timestamp = None, display_timers = 0\<rparr>"


text \<open>
  A plant with four features, a detector that flags every row whose reactor temperature or
  feed differs from the normal point, and the two top features reported.
\<close>

definition example_static :: static where
  "example_static =
     \<lparr>FEATURE_COLUMNS = [''Reactor Temperature'', ''Reactor Pressure'', ''A Feed'', ''Reactor Level''],
      process_data_point =
        (\<lambda>r. if value_of r ''Reactor Temperature'' = 100 \<and> value_of r ''A Feed'' = 10
              then (1, False) else (10, True)),
      t2_threshold = 5, topkfeatures = 2\<rparr>"

definition normal_point :: row where
  "normal_point =
     [(''Reactor Temperature'', 100), (''Reactor Pressure'', 50), (''A Feed'', 10),
      (''Reactor Level'', 20)]"

text \<open>A fault on temperature and pressure, and a different one on feed and level.\<close>

definition fault_point_TP :: row where
  "fault_point_TP =
     [(''Reactor Temperature'', 120), (''Reactor Pressure'', 60), (''A Feed'', 10),
      (''Reactor Level'', 20)]"

definition fault_point_FL :: row where
  "fault_point_FL =
     [(''Reactor Temperature'', 100), (''Reactor Pressure'', 50), (''A Feed'', 30),
      (''Reactor Level'', 35)]"

definition normal_agg :: "int \<Rightarrow> agg_row" where
  "normal_agg k = \<lparr>features = normal_point, t2_stat = 1, anomaly = False, time = k, threshold = 5\<rparr>"

text \<open>
  The state after four normal rows: no decimation, a window of ten, one anomaly required,
  thirty seconds between requests, no analysis running.
\<close>

definition warm_state :: app_state where
  "warm_state =
     \<lparr>recent_raw_rows = \<lparr>items = [], maxlen = 1\<rparr>,
      aggregated_count = 4,
      live_buffer = \<lparr>items = [normal_agg 1, normal_agg 2, normal_agg 3, normal_agg 4], maxlen = 10\<rparr>,
      consecutive_anomalies = 0,
      LIVE_WINDOW_SIZE = 10,
      consecutive_anomalies_required = 1,
      decimation_N = 1,
      llm_min_interval_seconds = 30,
      feature_shift_jaccard_threshold = 6 / 10,
      feature_shift_min_interval_seconds = 120,
      last_llm_trigger_time = 0,
      last_llm_top_features = [],
      tracker_is_analyzing = False,
      tracker_last_llm_request_time = 0,
      tracker_min_llm_interval = 30,
      last_analysis_result = None,
      background_tasks = []\<rparr>"

definition example_env :: analysis_env where
  "example_env =
     \<lparr>overall_timeout = False, env_client = example_client, env_backends = failing_backends\<rparr>"

text \<open>
  The temperature fault arrives at second 1000 and its analysis runs to its end; the feed
  fault arrives ten seconds later.
\<close>

definition after_first_fault :: app_state where
  "after_first_fault =
     background_llm_analysis 1000 example_env ''comparison''
       (after (ingest_live_point example_static 1000 fault_point_TP warm_state))"



text \<open>A reconfiguration request that sets only \<open>pca_window_size\<close>, to \<open>-1\<close>.\<close>

definition negative_window_payload :: payload where
  "negative_window_payload =
     \<lparr>pca_window_size = Some (- 1), fault_trigger_consecutive_step = None,
      new_decimation_N = None, new_llm_min_interval_seconds = None,
      new_feature_shift_jaccard_threshold = None,
      new_feature_shift_min_interval_seconds = None\<rparr>"

text \<open>The list \<open>FEATURE_COLUMNS\<close> of \<open>app.py\<close>.\<close>

definition feature_columns_of_app :: "string list" where
  "feature_columns_of_app =
     [''A Feed'', ''D Feed'', ''E Feed'', ''A and C Feed'', ''Recycle Flow'',
      ''Reactor Feed Rate'', ''Reactor Pressure'', ''Reactor Level'', ''Reactor Temperature'',
      ''Purge Rate'', ''Product Sep Temp'', ''Product Sep Level'', ''Product Sep Pressure'',
      ''Product Sep Underflow'', ''Stripper Level'', ''Stripper Pressure'', ''Stripper Underflow'',
      ''Stripper Temp'', ''Stripper Steam Flow'', ''Compressor Work'', ''Reactor Coolant Temp'',
      ''Separator Coolant Temp'',
      ''D feed load'', ''E feed load'', ''A feed load'', ''A and C feed load'',
      ''Compressor recycle valve'', ''Purge valve'', ''Separator liquid load'',
      ''Stripper liquid load'', ''Stripper steam valve'', ''Reactor coolant load'',
      ''Condenser coolant load'']"



section \<open>Retries\<close>

lemma lmstudio_loop_one:
  "lmstudio_loop (Suc 0) 0 raws =
     (case lmstudio_attempt (raws 0) of
        Inr c \<Rightarrow> (1, Inr (Some c))
      | Inl TimeoutError \<Rightarrow>
          (1, Inl (PyException (''LMStudio timeout after '' @ show_nat (Suc 0)
             @ '' attempt(s) (45s each - check if model is loaded)'')))
      | Inl e \<Rightarrow>
          (1, Inl (PyException (''LMStudio failed after '' @ show_nat (Suc 0)
             @ '' attempts: '' @ str_of e))))"
  by (subst lmstudio_loop.simps) (simp split: sum.splits py_exception.splits)

lemma query_lmstudio_requests: "fst (query_lmstudio raws) = 1"
  unfolding query_lmstudio_def max_retries_def One_nat_def lmstudio_loop_one
  by (simp split: sum.splits py_exception.splits)

lemma query_lmstudio_timeout:
  "raws 0 = LmTimeout \<Longrightarrow> isl (snd (query_lmstudio raws))"
  unfolding query_lmstudio_def max_retries_def One_nat_def lmstudio_loop_one
  by (simp add: lmstudio_attempt_def)

text \<open>
  C7.  Every backend call of a dispatch sends at most two requests to its service (the
  first and at most one retry), whatever the service does, and a call whose request timed
  out sends no second request and ends in an error for this cycle.  (The first component
  of a query's value is the number of requests it sent; with \<open>max_retries = 1\<close> and no
  loop in the other two methods it is always one.)
\<close>

theorem C7_at_most_one_retry_none_after_timeout:
  "fst (query_lmstudio raws) \<le> 2 \<and> fst (query_claude cr) \<le> 2 \<and> fst (query_gemini gr) \<le> 2
   \<and> (raws 0 = LmTimeout \<longrightarrow> fst (query_lmstudio raws) = 1 \<and> isl (snd (query_lmstudio raws)))
   \<and> (cr = ClTimeout \<longrightarrow> fst (query_claude cr) = 1 \<and> isl (snd (query_claude cr)))
   \<and> (contains ''timeout'' (lower m) \<longrightarrow>
        fst (query_gemini (GmRaises m)) = 1 \<and> isl (snd (query_gemini (GmRaises m))))"
  using query_lmstudio_requests [of raws] query_lmstudio_timeout [of raws]
  by (simp add: query_claude_def query_gemini_def)

theorem C7_witness:
  "(\<lambda>k. LmTimeout) 0 = LmTimeout \<and> ClTimeout = ClTimeout \<and> contains ''timeout'' (lower ''Read Timeout'')
   \<and> fst (query_lmstudio (\<lambda>k. LmTimeout)) = 1 \<and> isl (snd (query_lmstudio (\<lambda>k. LmTimeout)))
   \<and> fst (query_claude ClTimeout) = 1 \<and> isl (snd (query_claude ClTimeout))
   \<and> fst (query_gemini (GmRaises ''Read Timeout'')) = 1
   \<and> isl (snd (query_gemini (GmRaises ''Read Timeout'')))"
proof -
  have h: "contains ''timeout'' (lower ''Read Timeout'')"
    by code_simp
  show ?thesis
    using C7_at_most_one_retry_none_after_timeout
            [of "\<lambda>k. LmTimeout" ClTimeout "GmRaises ''Read Timeout''" "''Read Timeout''"] h
    by simp
qed


section \<open>The dispatch captures every failure\<close>















section \<open>The per-backend lifecycle\<close>

lemma analyze_fault_error:
  assumes "can_accept_request m" and "call_model env (model_name m) = Inl e"
  shows "analyze_fault clock env m =
           (Finished \<lparr>result_model_name = model_name m, response = Some (''Error: '' @ str_of e),
                      result_status = ''error''\<rparr>,
            m\<lparr>is_analyzing := False\<rparr>)"
  using assms by (simp add: analyze_fault_def Let_def)

text \<open>
  C10.  When the manager accepts a request and the backend call raises, whatever the
  exception, \<open>analyze_fault\<close> returns a result with status \<open>error\<close> and the text of the
  exception, starts no display timer, leaves \<open>is_displaying\<close> false and is Idle again:
  \<open>can_accept_request\<close> holds in the state it returns.
\<close>

theorem C10_error_skips_display:
  assumes "can_accept_request m" and "call_model env (model_name m) = Inl e"
  shows "\<exists>r m'. analyze_fault clock env m = (Finished r, m')
           \<and> result_status r = ''error''
           \<and> response r = Some (''Error: '' @ str_of e)
           \<and> is_displaying m' = NotDisplaying
           \<and> display_timers m' = display_timers m
           \<and> lifecycle_of m' = Idle
           \<and> can_accept_request m'"
  using assms analyze_fault_error [OF assms, of clock]
  by (simp add: can_accept_request_def lifecycle_of_def)

theorem C10_witness:
  "can_accept_request idle_manager
   \<and> call_model failing_backends (model_name idle_manager)
       = Inl (PyException ''LMStudio timeout after 1 attempt(s) (45s each - check if model is loaded)'')
   \<and> (\<exists>r m'. analyze_fault 5 failing_backends idle_manager = (Finished r, m')
         \<and> result_status r = ''error''
         \<and> response r = Some ''Error: LMStudio timeout after 1 attempt(s) (45s each - check if model is loaded)''
         \<and> is_displaying m' = NotDisplaying
         \<and> display_timers m' = display_timers idle_manager
         \<and> lifecycle_of m' = Idle
         \<and> can_accept_request m')"
proof -
  have a: "can_accept_request idle_manager"
    by (simp add: can_accept_request_def idle_manager_def)
  have c: "call_model failing_backends ''lmstudio''
      = Inl (PyException ''LMStudio timeout after 1 attempt(s) (45s each - check if model is loaded)'')"
    by code_simp
  have b: "call_model failing_backends (model_name idle_manager)
      = Inl (PyException ''LMStudio timeout after 1 attempt(s) (45s each - check if model is loaded)'')"
    by (simp add: idle_manager_def c)
  from C10_error_skips_display [OF a b, of 5] a b show ?thesis by simp
qed

text \<open>
  C8.  The display timer does not look at the frozen state: after a successful analysis
  the manager is Displaying, \<open>freeze_display\<close> makes it Frozen, and the timer that the
  analysis started then sets \<open>is_displaying\<close> to false, so the manager is Idle and accepts
  requests without any \<open>unfreeze_display\<close>.
\<close>

theorem C8_timer_ends_frozen_display:
  "(let m1 = snd (analyze_fault 100 answering_backends idle_manager);
        m2 = freeze_display m1;
        m3 = display_timer 110 m2
    in lifecycle_of m1 = DisplayingResult \<and> display_timers m1 = 1
       \<and> lifecycle_of m2 = FrozenResult
       \<and> lifecycle_of m3 = Idle \<and> can_accept_request m3)"
  by code_simp

section \<open>The gate of the ingest handler\<close>

lemma score_and_gate_appended:
  "appended (score_and_gate st clock r s2) =
     Some \<lparr>features = r, t2_stat = fst (process_data_point st r),
           anomaly = snd (process_data_point st r), time = aggregated_count s2,
           threshold = t2_threshold st\<rparr>"
  by (simp add: score_and_gate_def Let_def split: sum.splits)

lemma score_and_gate_frame:
  "recent_raw_rows (after (score_and_gate st clock r s2)) = recent_raw_rows s2
   \<and> decimation_N (after (score_and_gate st clock r s2)) = decimation_N s2
   \<and> aggregated_count (after (score_and_gate st clock r s2)) = aggregated_count s2
   \<and> LIVE_WINDOW_SIZE (after (score_and_gate st clock r s2)) = LIVE_WINDOW_SIZE s2
   \<and> tracker_is_analyzing (after (score_and_gate st clock r s2)) = tracker_is_analyzing s2
   \<and> live_buffer (after (score_and_gate st clock r s2))
       = deque_append (live_buffer s2)
           \<lparr>features = r, t2_stat = fst (process_data_point st r),
            anomaly = snd (process_data_point st r), time = aggregated_count s2,
            threshold = t2_threshold st\<rparr>"
  by (simp add: score_and_gate_def Let_def split: sum.splits)

lemma score_and_gate_task:
  "background_tasks (after (score_and_gate st clock r s2)) \<noteq> background_tasks s2 \<Longrightarrow>
   \<not> tracker_is_analyzing s2
   \<and> reply (score_and_gate st clock r s2)
       = Inl (HTTPException 500 ''name 'now' is not defined'')"
  by (simp add: score_and_gate_def Let_def split: sum.splits if_splits)

lemma ingest_live_point_shape:
  "(appended (ingest_live_point st clock dp s) = None
      \<and> background_tasks (after (ingest_live_point st clock dp s)) = background_tasks s
      \<and> tracker_is_analyzing (after (ingest_live_point st clock dp s)) = tracker_is_analyzing s
      \<and> live_buffer (after (ingest_live_point st clock dp s)) = live_buffer s
      \<and> LIVE_WINDOW_SIZE (after (ingest_live_point st clock dp s)) = LIVE_WINDOW_SIZE s)
   \<or> (\<exists>r s2. ingest_live_point st clock dp s = score_and_gate st clock r s2
        \<and> s2 = s\<lparr>recent_raw_rows := deque_clear (deque_append (recent_raw_rows s)
                                     (raw_row (FEATURE_COLUMNS st) dp)),
                  aggregated_count := aggregated_count s + 1\<rparr>
        \<and> mean_row (FEATURE_COLUMNS st)
              (items (deque_append (recent_raw_rows s) (raw_row (FEATURE_COLUMNS st) dp))) = Inr r)"
  by (auto simp: ingest_live_point_def Let_def split: sum.splits)

lemma ingest_task_raises:
  assumes "background_tasks (after (ingest_live_point st clock dp s)) \<noteq> background_tasks s"
  shows "\<not> tracker_is_analyzing s
         \<and> \<not> tracker_is_analyzing (after (ingest_live_point st clock dp s))
         \<and> reply (ingest_live_point st clock dp s)
             = Inl (HTTPException 500 ''name 'now' is not defined'')"
proof -
  from ingest_live_point_shape [of st clock dp s] assms
  obtain r s2 where eq: "ingest_live_point st clock dp s = score_and_gate st clock r s2"
    and s2: "s2 = s\<lparr>recent_raw_rows := deque_clear (deque_append (recent_raw_rows s)
                                     (raw_row (FEATURE_COLUMNS st) dp)),
                  aggregated_count := aggregated_count s + 1\<rparr>"
    by auto
  from assms eq s2 have "background_tasks (after (score_and_gate st clock r s2)) \<noteq> background_tasks s2"
    by simp
  from score_and_gate_task [OF this] score_and_gate_frame [of st clock r s2] eq s2
  show ?thesis by simp
qed

lemma background_finish_clears: "\<not> tracker_is_analyzing (background_finish aenv comparison s)"
  by (simp add: background_finish_def background_finally_def)

lemma ingest_produced:
  assumes "appended (ingest_live_point st clock dp s) = Some r"
  shows "\<exists>row s2. ingest_live_point st clock dp s = score_and_gate st clock row s2
        \<and> s2 = s\<lparr>recent_raw_rows := deque_clear (deque_append (recent_raw_rows s)
                                     (raw_row (FEATURE_COLUMNS st) dp)),
                  aggregated_count := aggregated_count s + 1\<rparr>"
  using ingest_live_point_shape [of st clock dp s] assms by auto

lemma score_and_gate_rate_limited:
  assumes "snd (process_data_point st row)"
    and "max 1 (consecutive_anomalies_required s2) \<le> consecutive_anomalies s2 + 1"
    and "max 5 (int_half (LIVE_WINDOW_SIZE s2))
           \<le> int (length (items (live_buffer (after (score_and_gate st clock row s2)))))"
    and "\<not> tracker_is_analyzing s2"
    and "clock - tracker_last_llm_request_time s2 < tracker_min_llm_interval s2"
  shows "\<exists>a. reply (score_and_gate st clock row s2) = Inr (Scored a)
           \<and> ack_llm a = RateLimited (tracker_min_llm_interval s2
                                        - (clock - tracker_last_llm_request_time s2))
           \<and> background_tasks (after (score_and_gate st clock row s2)) = background_tasks s2"
proof -
  have lb: "live_buffer (after (score_and_gate st clock row s2))
       = deque_append (live_buffer s2)
           \<lparr>features = row, t2_stat = fst (process_data_point st row),
            anomaly = snd (process_data_point st row), time = aggregated_count s2,
            threshold = t2_threshold st\<rparr>"
    using score_and_gate_frame [of st clock row s2] by simp
  show ?thesis
    using assms unfolding lb
    by (simp add: score_and_gate_def Let_def can_send_llm_request_def)
qed

lemma score_and_gate_triggers:
  assumes "snd (process_data_point st row)"
    and "max 1 (consecutive_anomalies_required s2) \<le> consecutive_anomalies s2 + 1"
    and "max 5 (int_half (LIVE_WINDOW_SIZE s2))
           \<le> int (length (items (live_buffer (after (score_and_gate st clock row s2)))))"
    and "\<not> tracker_is_analyzing s2"
    and "tracker_min_llm_interval s2 \<le> clock - tracker_last_llm_request_time s2"
    and "top_features (FEATURE_COLUMNS st) (topkfeatures st)
           (items (live_buffer (after (score_and_gate st clock row s2)))) = Inr tf"
  shows "background_tasks (after (score_and_gate st clock row s2)) = background_tasks s2 @ [tf]"
proof -
  have lb: "live_buffer (after (score_and_gate st clock row s2))
       = deque_append (live_buffer s2)
           \<lparr>features = row, t2_stat = fst (process_data_point st row),
            anomaly = snd (process_data_point st row), time = aggregated_count s2,
            threshold = t2_threshold st\<rparr>"
    using score_and_gate_frame [of st clock row s2] by simp
  show ?thesis
    using assms unfolding lb
    by (simp add: score_and_gate_def Let_def can_send_llm_request_def)
qed


text \<open>
  C3.  A feature-complete row that fires the trigger does not get an acknowledgment: the
  task is created, and the handler then reads the unbound name \<open>now\<close> and answers with
  the HTTP 500 of its \<open>except\<close> clause.  Here the fifth row of the window is anomalous,
  one anomaly is required and no request was sent in the last thirty seconds.
\<close>

theorem C3_trigger_path_raises:
  "feature_complete (FEATURE_COLUMNS example_static) fault_point_TP
   \<and> background_tasks (after (ingest_live_point example_static 1000 fault_point_TP warm_state))
       = [[''Reactor Temperature'', ''Reactor Pressure'']]
   \<and> reply (ingest_live_point example_static 1000 fault_point_TP warm_state)
       = Inl (HTTPException 500 ''name 'now' is not defined'')"
  by code_simp

text \<open>
  C2.  The flag is set by the first statement of the task and is false when the task ends,
  in whatever state the awaited dispatch resumes and whatever the dispatch did (all
  backends answering, some or all failing, the overall timeout); and a task is only
  created by an ingest that found the flag false and leaves it false.
\<close>

theorem C2_in_flight_cleared_on_every_path:
  "tracker_is_analyzing (background_start clock s)
   \<and> \<not> tracker_is_analyzing (background_finish aenv comparison s')
   \<and> \<not> tracker_is_analyzing (background_llm_analysis clock aenv comparison s)
   \<and> (background_tasks (after (ingest_live_point st clk dp s)) \<noteq> background_tasks s \<longrightarrow>
         \<not> tracker_is_analyzing s \<and> \<not> tracker_is_analyzing (after (ingest_live_point st clk dp s)))"
  using ingest_task_raises [of st clk dp s] background_finish_clears
  by (simp add: background_llm_analysis_def background_start_def)

theorem C2_witness:
  "background_tasks (after (ingest_live_point example_static 1000 fault_point_TP warm_state))
     \<noteq> background_tasks warm_state
   \<and> \<not> tracker_is_analyzing warm_state
   \<and> \<not> tracker_is_analyzing (after (ingest_live_point example_static 1000 fault_point_TP warm_state))
   \<and> tracker_is_analyzing (background_start 1000 warm_state)
   \<and> \<not> tracker_is_analyzing
         (background_llm_analysis 1000 (example_env\<lparr>overall_timeout := True\<rparr>) ''comparison'' warm_state)"
proof -
  have h: "background_tasks (after (ingest_live_point example_static 1000 fault_point_TP warm_state))
     \<noteq> background_tasks warm_state"
    by code_simp
  from C2_in_flight_cleared_on_every_path
         [of 1000 warm_state "example_env\<lparr>overall_timeout := True\<rparr>" "''comparison''" warm_state
             example_static 1000 fault_point_TP] h
  show ?thesis by simp
qed

text \<open>
  C1, as stated, fails.  A trigger fired on temperature and pressure at second 1000 and
  its analysis has ended.  Ten seconds later, inside the thirty second interval, an
  anomalous row arrives whose top features are feed and level, disjoint from the first set
  (Jaccard similarity 0, below the threshold 0.6), with every other condition met.  No
  task is created: the row is acknowledged as rate limited, twenty seconds to wait.
\<close>

theorem C1_counterexample:
  "feature_complete (FEATURE_COLUMNS example_static) fault_point_FL
   \<and> background_tasks after_first_fault = [[''Reactor Temperature'', ''Reactor Pressure'']]
   \<and> \<not> tracker_is_analyzing after_first_fault
   \<and> 1010 - tracker_last_llm_request_time after_first_fault < tracker_min_llm_interval after_first_fault
   \<and> appended (ingest_live_point example_static 1010 fault_point_FL after_first_fault)
       = Some \<lparr>features = fault_point_FL, t2_stat = 10, anomaly = True, time = 6, threshold = 5\<rparr>
   \<and> max 1 (consecutive_anomalies_required after_first_fault)
       \<le> consecutive_anomalies after_first_fault + 1
   \<and> max 5 (int_half (LIVE_WINDOW_SIZE after_first_fault))
       \<le> int (length (items (live_buffer
             (after (ingest_live_point example_static 1010 fault_point_FL after_first_fault)))))
   \<and> top_features (FEATURE_COLUMNS example_static) (topkfeatures example_static)
        (items (live_buffer
             (after (ingest_live_point example_static 1010 fault_point_FL after_first_fault))))
       = Inr [''A Feed'', ''Reactor Level'']
   \<and> jaccard [''A Feed'', ''Reactor Level''] [''Reactor Temperature'', ''Reactor Pressure'']
       < feature_shift_jaccard_threshold after_first_fault
   \<and> background_tasks (after (ingest_live_point example_static 1010 fault_point_FL after_first_fault))
       = background_tasks after_first_fault
   \<and> reply (ingest_live_point example_static 1010 fault_point_FL after_first_fault)
       = Inr (Scored \<lparr>ack_t2_stat = 10, ack_anomaly = True, ack_threshold = 5,
                      ack_consecutive_anomalies = 1, ack_aggregated_index = 6,
                      ack_llm = RateLimited 20\<rparr>)"
  by code_simp

text \<open>
  C1, amended.  For an aggregated row that is anomalous, reaches the consecutive count,
  has enough context and finds no analysis in flight: while less than the minimum interval
  has passed since the last request, the row is acknowledged as rate limited and no task
  is created, whatever its top features are; once the interval has passed, a task is
  created with the top features of the window.
\<close>

theorem C1_rate_limit_ignores_fingerprint:
  assumes "appended (ingest_live_point st clock dp s) = Some r"
    and "anomaly r"
    and "max 1 (consecutive_anomalies_required s) \<le> consecutive_anomalies s + 1"
    and "max 5 (int_half (LIVE_WINDOW_SIZE s))
           \<le> int (length (items (live_buffer (after (ingest_live_point st clock dp s)))))"
    and "\<not> tracker_is_analyzing s"
  shows "(clock - tracker_last_llm_request_time s < tracker_min_llm_interval s \<longrightarrow>
            (\<exists>a. reply (ingest_live_point st clock dp s) = Inr (Scored a)
               \<and> ack_llm a = RateLimited (tracker_min_llm_interval s
                                            - (clock - tracker_last_llm_request_time s)))
            \<and> background_tasks (after (ingest_live_point st clock dp s)) = background_tasks s)
       \<and> (tracker_min_llm_interval s \<le> clock - tracker_last_llm_request_time s \<longrightarrow>
            top_features (FEATURE_COLUMNS st) (topkfeatures st)
              (items (live_buffer (after (ingest_live_point st clock dp s)))) = Inr tf \<longrightarrow>
            background_tasks (after (ingest_live_point st clock dp s)) = background_tasks s @ [tf])"
proof -
  from ingest_produced [OF assms(1)] obtain row s2
    where eq: "ingest_live_point st clock dp s = score_and_gate st clock row s2"
      and s2: "s2 = s\<lparr>recent_raw_rows := deque_clear (deque_append (recent_raw_rows s)
                                     (raw_row (FEATURE_COLUMNS st) dp)),
                  aggregated_count := aggregated_count s + 1\<rparr>"
    by blast
  from assms(1,2) eq have an: "snd (process_data_point st row)"
    using score_and_gate_appended [of st clock row s2] by auto
  have c: "max 1 (consecutive_anomalies_required s2) \<le> consecutive_anomalies s2 + 1"
    using assms(3) s2 by simp
  have e: "max 5 (int_half (LIVE_WINDOW_SIZE s2))
           \<le> int (length (items (live_buffer (after (score_and_gate st clock row s2)))))"
    using assms(4) eq s2 by simp
  have f: "\<not> tracker_is_analyzing s2" using assms(5) s2 by simp
  have t: "tracker_last_llm_request_time s2 = tracker_last_llm_request_time s
      \<and> tracker_min_llm_interval s2 = tracker_min_llm_interval s
      \<and> background_tasks s2 = background_tasks s"
    using s2 by simp
  show ?thesis
    unfolding eq
    using score_and_gate_rate_limited [OF an c e f] score_and_gate_triggers [OF an c e f, of tf]
    unfolding t [THEN conjunct1] t [THEN conjunct2, THEN conjunct1] t [THEN conjunct2, THEN conjunct2]
    by blast
qed


theorem C1_witness:
  "appended (ingest_live_point example_static 1010 fault_point_FL after_first_fault)
       = Some \<lparr>features = fault_point_FL, t2_stat = 10, anomaly = True, time = 6, threshold = 5\<rparr>
   \<and> 1010 - tracker_last_llm_request_time after_first_fault < tracker_min_llm_interval after_first_fault
   \<and> background_tasks (after (ingest_live_point example_static 1010 fault_point_FL after_first_fault))
       = background_tasks after_first_fault
   \<and> tracker_min_llm_interval after_first_fault \<le> 1040 - tracker_last_llm_request_time after_first_fault
   \<and> background_tasks (after (ingest_live_point example_static 1040 fault_point_FL after_first_fault))
       = background_tasks after_first_fault @ [[''A Feed'', ''Reactor Level'']]"
proof -
  have a1: "appended (ingest_live_point example_static 1010 fault_point_FL after_first_fault)
       = Some \<lparr>features = fault_point_FL, t2_stat = 10, anomaly = True, time = 6, threshold = 5\<rparr>"
    by code_simp
  have a1': "appended (ingest_live_point example_static 1040 fault_point_FL after_first_fault)
       = Some \<lparr>features = fault_point_FL, t2_stat = 10, anomaly = True, time = 6, threshold = 5\<rparr>"
    by code_simp
  have a2: "anomaly \<lparr>features = fault_point_FL, t2_stat = 10, anomaly = True, time = 6, threshold = 5\<rparr>"
    by simp
  have a3: "max 1 (consecutive_anomalies_required after_first_fault)
       \<le> consecutive_anomalies after_first_fault + 1"
    by code_simp
  have a4: "max 5 (int_half (LIVE_WINDOW_SIZE after_first_fault))
       \<le> int (length (items (live_buffer
             (after (ingest_live_point example_static 1010 fault_point_FL after_first_fault)))))"
    by code_simp
  have a4': "max 5 (int_half (LIVE_WINDOW_SIZE after_first_fault))
       \<le> int (length (items (live_buffer
             (after (ingest_live_point example_static 1040 fault_point_FL after_first_fault)))))"
    by code_simp
  have a5: "\<not> tracker_is_analyzing after_first_fault"
    by code_simp
  have early: "1010 - tracker_last_llm_request_time after_first_fault
       < tracker_min_llm_interval after_first_fault"
    by code_simp
  have late: "tracker_min_llm_interval after_first_fault
       \<le> 1040 - tracker_last_llm_request_time after_first_fault"
    by code_simp
  have tf: "top_features (FEATURE_COLUMNS example_static) (topkfeatures example_static)
        (items (live_buffer
             (after (ingest_live_point example_static 1040 fault_point_FL after_first_fault))))
       = Inr [''A Feed'', ''Reactor Level'']"
    by code_simp
  from C1_rate_limit_ignores_fingerprint [OF a1 a2 a3 a4 a5] early
  have r1: "background_tasks (after (ingest_live_point example_static 1010 fault_point_FL after_first_fault))
       = background_tasks after_first_fault"
    by blast
  from C1_rate_limit_ignores_fingerprint [OF a1' a2 a3 a4' a5, of "[''A Feed'', ''Reactor Level'']"] late tf
  have r2: "background_tasks (after (ingest_live_point example_static 1040 fault_point_FL after_first_fault))
       = background_tasks after_first_fault @ [[''A Feed'', ''Reactor Level'']]"
    by blast
  from a1 early r1 late r2 show ?thesis by blast
qed

section \<open>The window bound\<close>

lemma lastn_length: "length (lastn n xs) \<le> n"
  by (simp add: lastn_def)

lemma deque_append_bound:
  "length (items (deque_append d x)) \<le> maxlen d \<and> maxlen (deque_append d x) = maxlen d"
  by (simp add: deque_append_def lastn_length)

lemma ingest_window_bound:
  "length (items (live_buffer s)) \<le> maxlen (live_buffer s) \<Longrightarrow>
   length (items (live_buffer (after (ingest_live_point st clock dp s)))) \<le> maxlen (live_buffer s)
   \<and> maxlen (live_buffer (after (ingest_live_point st clock dp s))) = maxlen (live_buffer s)
   \<and> LIVE_WINDOW_SIZE (after (ingest_live_point st clock dp s)) = LIVE_WINDOW_SIZE s"
  using ingest_live_point_shape [of st clock dp s]
proof (elim disjE exE conjE)
  assume "length (items (live_buffer s)) \<le> maxlen (live_buffer s)"
    and "live_buffer (after (ingest_live_point st clock dp s)) = live_buffer s"
    and "LIVE_WINDOW_SIZE (after (ingest_live_point st clock dp s)) = LIVE_WINDOW_SIZE s"
  then show ?thesis by simp
next
  fix r s2
  assume eq: "ingest_live_point st clock dp s = score_and_gate st clock r s2"
    and s2: "s2 = s\<lparr>recent_raw_rows := deque_clear (deque_append (recent_raw_rows s)
                                     (raw_row (FEATURE_COLUMNS st) dp)),
                  aggregated_count := aggregated_count s + 1\<rparr>"
  show ?thesis
    unfolding eq using score_and_gate_frame [of st clock r s2] deque_append_bound
    by (simp add: s2)
qed

lemma slice_lastn: "0 \<le> w \<Longrightarrow> lastn (nat w) (slice_from (- w) xs) = lastn (nat w) xs"
  by (cases "w = 0") (auto simp: slice_from_def lastn_def)

lemma update_window_nonneg:
  "0 \<le> w \<Longrightarrow>
   update_window w s =
     (None, s\<lparr>LIVE_WINDOW_SIZE := w,
              live_buffer := \<lparr>items = lastn (nat w) (items (live_buffer s)), maxlen = nat w\<rparr>\<rparr>)"
  by (simp add: update_window_def deque_new_def Let_def slice_lastn)

lemma update_decimation_ok: "fst (update_decimation n s) = None
   \<and> live_buffer (snd (update_decimation n s)) = live_buffer s
   \<and> LIVE_WINDOW_SIZE (snd (update_decimation n s)) = LIVE_WINDOW_SIZE s"
  by (simp add: update_decimation_def deque_new_def Let_def)

lemma update_rest_frame: "live_buffer (update_rest p s) = live_buffer s
   \<and> LIVE_WINDOW_SIZE (update_rest p s) = LIVE_WINDOW_SIZE s"
  by (simp add: update_rest_def Let_def split: option.splits)

lemma update_runtime_config_shrinks:
  assumes "pca_window_size p = Some w" and "0 \<le> w"
  shows "items (live_buffer (snd (update_runtime_config p s))) = lastn (nat w) (items (live_buffer s))
    \<and> maxlen (live_buffer (snd (update_runtime_config p s))) = nat w
    \<and> LIVE_WINDOW_SIZE (snd (update_runtime_config p s)) = w
    \<and> int (length (items (live_buffer (snd (update_runtime_config p s))))) \<le> w
    \<and> fst (update_runtime_config p s) = Inr ()"
  using assms update_decimation_ok update_rest_frame lastn_length [of "nat w" "items (live_buffer s)"]
  by (auto simp: update_runtime_config_def Let_def update_window_nonneg split: option.splits)


text \<open>
  C6.  A reconfiguration with a negative window size breaks the bound: the handler stores
  the size in \<open>LIVE_WINDOW_SIZE\<close>, then the deque constructor raises and the old window
  stays.  After the request the window holds four rows while the configured size is
  \<open>-1\<close>, and the next ingest adds a fifth.  (For sizes that are not negative the bound
  holds: \<open>ingest_window_bound\<close> and \<open>update_runtime_config_shrinks\<close> above.)
\<close>

theorem C6_negative_window_size_breaks_bound:
  "fst (update_runtime_config negative_window_payload warm_state)
     = Inl (ValueError ''maxlen must be non-negative'')
   \<and> LIVE_WINDOW_SIZE (snd (update_runtime_config negative_window_payload warm_state)) = - 1
   \<and> length (items (live_buffer (snd (update_runtime_config negative_window_payload warm_state)))) = 4
   \<and> length (items (live_buffer (after (ingest_live_point example_static 1000 normal_point
        (snd (update_runtime_config negative_window_payload warm_state)))))) = 5"
  by code_simp

section \<open>The event stream\<close>













section \<open>Decimation\<close>

lemma feature_columns_of_app_distinct:
  "distinct feature_columns_of_app \<and> length feature_columns_of_app = 33"
  by code_simp























end
